theory Spec2Isabelle
  imports Main "HOL-Library.Sublist"
begin

section \<open>KeyRotation: round-robin API key rotation per service\<close>

text \<open>
  The class \<^verbatim>\<open>KeyRotation\<close> keeps two maps, \<^verbatim>\<open>currentIndex\<close> and \<^verbatim>\<open>keysCache\<close>, and reads
  its keys from a file in \<^verbatim>\<open>config/keys/\<close> or, when the file gives none, from an environment
  variable. The model passes the object's state explicitly and takes the file system and the
  process environment as a value of type \<open>world\<close>, so that the backing sources may differ
  from one call to the next. Every method returns its result together with the state it
  leaves behind: \<^verbatim>\<open>getNextKey\<close> on an empty pool throws after \<^verbatim>\<open>loadKeys\<close> has already
  written the cache.
\<close>

datatype ServiceName = deepgram | gemini

text \<open>
  The text of a key file, a key and the value of an environment variable are JavaScript
  strings: sequences of UTF-16 code units, here natural numbers. File names, variable names
  and messages are constants of the program and stay \<open>string\<close>s.
\<close>

type_synonym jstring = "nat list"

fun KEY_FILES :: "ServiceName \<Rightarrow> string" where
  "KEY_FILES deepgram = ''deepgram-keys.txt''"
| "KEY_FILES gemini = ''gemini-keys.txt''"

fun ENV_VARS :: "ServiceName \<Rightarrow> string" where
  "ENV_VARS deepgram = ''DEEPGRAM_API_KEY''"
| "ENV_VARS gemini = ''GEMINI_API_KEY''"

text \<open>
  A key file is absent (\<^verbatim>\<open>fs.existsSync\<close> is false), present but \<^verbatim>\<open>fs.readFileSync\<close> throws
  (the message of the thrown value is kept), or present with its content: the string that
  \<^verbatim>\<open>readFileSync(keyFile, 'utf-8')\<close> returns, a byte order mark included if the file has one.
\<close>

datatype key_file = Absent | Unreadable string | Content jstring

record world =
  files :: "string \<Rightarrow> key_file"
  environ :: "string \<rightharpoonup> jstring"

record KeyRotation =
  currentIndex :: "ServiceName \<rightharpoonup> nat"
  keysCache :: "ServiceName \<rightharpoonup> jstring list"

text \<open>The two errors \<^verbatim>\<open>KeyRotation\<close> throws, named by the place that throws them.\<close>

datatype key_error =
    NoKeysAvailable ServiceName
  | KeyFileReadFailed string string

text \<open>
  \<^verbatim>\<open>keys[idx]\<close> is \<^verbatim>\<open>undefined\<close> in JavaScript when \<^verbatim>\<open>idx\<close> is not an index of the array;
  the declared return type \<^verbatim>\<open>string\<close> does not prevent it.
\<close>

datatype key_value = Key jstring | Undefined

text \<open>\<^verbatim>\<open>new KeyRotation()\<close>: both maps empty.\<close>

definition newKeyRotation :: KeyRotation where
  "newKeyRotation = \<lparr>currentIndex = Map.empty, keysCache = Map.empty\<rparr>"

subsection \<open>The string operations of \<^verbatim>\<open>loadKeys\<close>\<close>

text \<open>
  \<^verbatim>\<open>content.split('\n')\<close>: the pieces between line feeds (code unit 10); an empty string
  gives one empty piece.
\<close>

fun split_lines :: "jstring \<Rightarrow> jstring list" where
  "split_lines [] = [[]]"
| "split_lines (c # cs) =
     (if c = 10 then [] # split_lines cs
      else (case split_lines cs of
              [] \<Rightarrow> [[c]]
            | l # ls \<Rightarrow> (c # l) # ls))"

text \<open>
  The code units that \<^verbatim>\<open>String.prototype.trim\<close> removes, the white space and line
  terminators of ECMAScript: U+0009 to U+000D, U+0020, U+00A0, U+1680, U+2000 to U+200A,
  U+2028, U+2029, U+202F, U+205F, U+3000 and U+FEFF (the byte order mark).
\<close>

definition is_space :: "nat \<Rightarrow> bool" where
  "is_space c \<longleftrightarrow>
     c \<in> set [0x0009, 0x000A, 0x000B, 0x000C, 0x000D, 0x0020, 0x00A0, 0x1680,
               0x2000, 0x2001, 0x2002, 0x2003, 0x2004, 0x2005, 0x2006, 0x2007, 0x2008,
               0x2009, 0x200A, 0x2028, 0x2029, 0x202F, 0x205F, 0x3000, 0xFEFF]"

definition trim :: "jstring \<Rightarrow> jstring" where
  "trim s = rev (dropWhile is_space (rev (dropWhile is_space s)))"

definition startsWith :: "jstring \<Rightarrow> jstring \<Rightarrow> bool" where
  "startsWith s p \<longleftrightarrow> prefix p s"

text \<open>
  \<^verbatim>\<open>content.split('\n').map(line => line.trim()).filter(line => line.length > 0 &&
  !line.startsWith('#'))\<close>; the code unit of \<^verbatim>\<open>#\<close> is 0x23.
\<close>

definition parse_keys :: "jstring \<Rightarrow> jstring list" where
  "parse_keys content =
     filter (\<lambda>line. length line > 0 \<and> \<not> startsWith line [0x23])
       (map trim (split_lines content))"

subsection \<open>The methods\<close>

text \<open>
  The part of \<^verbatim>\<open>loadKeys\<close> after the cache lookup, lines 160 to 183: the keys the backing
  sources give now. \<^verbatim>\<open>process.env[envVar]\<close> is used when it is truthy, that is, set and not
  the empty string.
\<close>

definition read_sources :: "world \<Rightarrow> ServiceName \<Rightarrow> key_error + jstring list" where
  "read_sources w serviceName =
     (let keyFile = KEY_FILES serviceName;
          envVar = ENV_VARS serviceName
      in case files w keyFile of
           Unreadable msg \<Rightarrow> Inl (KeyFileReadFailed keyFile msg)
         | f \<Rightarrow>
             (let keys = (case f of Content content \<Rightarrow> parse_keys content | _ \<Rightarrow> [])
              in case environ w envVar of
                   Some v \<Rightarrow> if length keys = 0 \<and> v \<noteq> [] then Inr [v] else Inr keys
                 | None \<Rightarrow> Inr keys))"

definition loadKeys ::
  "world \<Rightarrow> KeyRotation \<Rightarrow> ServiceName \<Rightarrow> (key_error + jstring list) \<times> KeyRotation" where
  "loadKeys w s serviceName =
     (case keysCache s serviceName of
        Some keys \<Rightarrow> (Inr keys, s)
      | None \<Rightarrow>
          (case read_sources w serviceName of
             Inl e \<Rightarrow> (Inl e, s)
           | Inr keys \<Rightarrow> (Inr keys, s\<lparr>keysCache := (keysCache s)(serviceName \<mapsto> keys)\<rparr>)))"

definition getNextKey ::
  "world \<Rightarrow> KeyRotation \<Rightarrow> ServiceName \<Rightarrow> (key_error + key_value) \<times> KeyRotation" where
  "getNextKey w s serviceName =
     (case loadKeys w s serviceName of
        (Inl e, s') \<Rightarrow> (Inl e, s')
      | (Inr keys, s') \<Rightarrow>
          if length keys = 0 then (Inl (NoKeysAvailable serviceName), s')
          else
            (let idx = (case currentIndex s' serviceName of Some i \<Rightarrow> i | None \<Rightarrow> 0)
             in (Inr (if idx < length keys then Key (keys ! idx) else Undefined),
                 s'\<lparr>currentIndex :=
                      (currentIndex s')(serviceName \<mapsto> (idx + 1) mod length keys)\<rparr>)))"

definition getAllKeys ::
  "world \<Rightarrow> KeyRotation \<Rightarrow> ServiceName \<Rightarrow> (key_error + jstring list) \<times> KeyRotation" where
  "getAllKeys w s serviceName = loadKeys w s serviceName"

definition getKeyCount ::
  "world \<Rightarrow> KeyRotation \<Rightarrow> ServiceName \<Rightarrow> (key_error + nat) \<times> KeyRotation" where
  "getKeyCount w s serviceName =
     (case loadKeys w s serviceName of
        (Inl e, s') \<Rightarrow> (Inl e, s')
      | (Inr keys, s') \<Rightarrow> (Inr (length keys), s'))"

definition hasKeys ::
  "world \<Rightarrow> KeyRotation \<Rightarrow> ServiceName \<Rightarrow> (key_error + bool) \<times> KeyRotation" where
  "hasKeys w s serviceName =
     (case loadKeys w s serviceName of
        (Inl e, s') \<Rightarrow> (Inl e, s')
      | (Inr keys, s') \<Rightarrow> (Inr (length keys > 0), s'))"

definition resetRotation :: "KeyRotation \<Rightarrow> ServiceName \<Rightarrow> KeyRotation" where
  "resetRotation s serviceName = s\<lparr>currentIndex := (currentIndex s)(serviceName := None)\<rparr>"

text \<open>\<^verbatim>\<open>clearCache(serviceName?)\<close>: one service, or every service when called with no argument.\<close>

definition clearCache :: "KeyRotation \<Rightarrow> ServiceName option \<Rightarrow> KeyRotation" where
  "clearCache s serviceName =
     (case serviceName of
        Some n \<Rightarrow> s\<lparr>keysCache := (keysCache s)(n := None)\<rparr>
      | None \<Rightarrow> s\<lparr>keysCache := Map.empty\<rparr>)"

subsection \<open>Sequences of calls\<close>

text \<open>
  A caller's use of the object is a list of calls, each made in the world of its moment.
  \<open>step\<close> gives the state a call leaves, whether it returned or threw.
\<close>

datatype call =
    GetNext ServiceName
  | GetAll ServiceName
  | GetCount ServiceName
  | Has ServiceName
  | ResetRotation ServiceName
  | ClearCache "ServiceName option"

fun step :: "KeyRotation \<Rightarrow> world \<times> call \<Rightarrow> KeyRotation" where
  "step s (w, GetNext n) = snd (getNextKey w s n)"
| "step s (w, GetAll n) = snd (getAllKeys w s n)"
| "step s (w, GetCount n) = snd (getKeyCount w s n)"
| "step s (w, Has n) = snd (hasKeys w s n)"
| "step s (w, ResetRotation n) = resetRotation s n"
| "step s (w, ClearCache n) = clearCache s n"

definition run :: "KeyRotation \<Rightarrow> (world \<times> call) list \<Rightarrow> KeyRotation" where
  "run s calls = foldl step s calls"

text \<open>\<open>k\<close> successive calls of \<^verbatim>\<open>getNextKey\<close> for one service, with what each gave.\<close>

fun getNextKeys ::
  "world \<Rightarrow> KeyRotation \<Rightarrow> ServiceName \<Rightarrow> nat \<Rightarrow> (key_error + key_value) list \<times> KeyRotation" where
  "getNextKeys w s serviceName 0 = ([], s)"
| "getNextKeys w s serviceName (Suc k) =
     (case getNextKey w s serviceName of
        (r, s') \<Rightarrow> (case getNextKeys w s' serviceName k of (rs, s'') \<Rightarrow> (r # rs, s'')))"

text \<open>The cursor \<^verbatim>\<open>getNextKey\<close> reads: \<^verbatim>\<open>this.currentIndex.get(serviceName) || 0\<close>.\<close>

definition cursor :: "KeyRotation \<Rightarrow> ServiceName \<Rightarrow> nat" where
  "cursor s n = (case currentIndex s n of Some i \<Rightarrow> i | None \<Rightarrow> 0)"

section \<open>GitHubAdapter: finding the run of a dispatch\<close>

text \<open>
  A thrown JavaScript value is an \<^verbatim>\<open>Error\<close> with its message, or something else
  (\<^verbatim>\<open>error instanceof Error\<close> is false).
\<close>

datatype js_exn = JsError string | JsNonError

text \<open>
  One element of \<^verbatim>\<open>data.workflow_runs\<close>, with the fields \<^verbatim>\<open>getRunStatus\<close> reads.
  \<open>r_created_at\<close> is the time value of \<^verbatim>\<open>new Date(r.created_at)\<close>, in milliseconds.
  The API types \<^verbatim>\<open>name\<close> as a string that may be \<^verbatim>\<open>null\<close> or absent: \<open>r_name\<close> is \<open>None\<close>
  then.
\<close>

record WorkflowRun =
  r_id :: int
  r_name :: "string option"
  r_event :: string
  r_created_at :: int
  r_status :: string
  r_conclusion :: "string option"
  r_html_url :: string

text \<open>
  The object that travels from \<^verbatim>\<open>getRunStatus\<close> through \<^verbatim>\<open>pollWorkflowStatus\<close> to
  \<^verbatim>\<open>ClipperService.process\<close>. The adapter declares \<^verbatim>\<open>id\<close>, \<^verbatim>\<open>status\<close>, \<^verbatim>\<open>conclusion\<close>,
  \<^verbatim>\<open>url\<close>; the service reads \<^verbatim>\<open>downloadUrl\<close>, \<^verbatim>\<open>checkUrl\<close> and \<^verbatim>\<open>error\<close> as well. A field
  that an object does not have is \<open>None\<close>. \<^verbatim>\<open>status\<close> is whatever string the remote sent
  (\<^verbatim>\<open>run.status as any\<close>).
\<close>

record WorkflowRunStatus =
  run_id :: "int option"
  status :: string
  conclusion :: "string option"
  url :: "string option"
  downloadUrl :: "string option"
  checkUrl :: "string option"
  error :: "string option"

record GitHubAdapter =
  owner :: string
  repo :: string
  workflowId :: string

definition getWorkflowUrl :: "GitHubAdapter \<Rightarrow> string" where
  "getWorkflowUrl gh = ''https://github.com/'' @ owner gh @ ''/'' @ repo gh @ ''/actions''"

text \<open>\<^verbatim>\<open>s.includes(sub)\<close>: \<open>sub\<close> occurs in \<open>s\<close> as a contiguous piece.\<close>

fun includes_str :: "string \<Rightarrow> string \<Rightarrow> bool" where
  "includes_str [] sub \<longleftrightarrow> sub = []"
| "includes_str (c # cs) sub \<longleftrightarrow> prefix sub (c # cs) \<or> includes_str cs sub"

text \<open>
  The two disjuncts of the predicate given to \<^verbatim>\<open>find\<close> (lines 51 and 52): the run's name
  contains the worker id, or the run is a \<^verbatim>\<open>workflow_dispatch\<close> created less than 300000 ms
  before \<open>now\<close>, the reading of \<^verbatim>\<open>Date.now()\<close> inside \<^verbatim>\<open>getRunStatus\<close>. A run without a
  name has no name that contains the worker id; what the code does on meeting one is in
  \<open>find_run\<close> below.
\<close>

definition name_matches :: "string \<Rightarrow> WorkflowRun \<Rightarrow> bool" where
  "name_matches workerId r \<longleftrightarrow>
     (case r_name r of None \<Rightarrow> False | Some nm \<Rightarrow> includes_str nm workerId)"

definition recent_dispatch :: "int \<Rightarrow> WorkflowRun \<Rightarrow> bool" where
  "recent_dispatch now r \<longleftrightarrow> r_event r = ''workflow_dispatch'' \<and> r_created_at r > now - 300000"

definition run_accepted :: "string \<Rightarrow> int \<Rightarrow> WorkflowRun \<Rightarrow> bool" where
  "run_accepted workerId now r \<longleftrightarrow> name_matches workerId r \<or> recent_dispatch now r"

text \<open>The object literal of lines 57 to 62.\<close>

definition snapshot :: "WorkflowRun \<Rightarrow> WorkflowRunStatus" where
  "snapshot r =
     \<lparr>run_id = Some (r_id r), status = r_status r, conclusion = r_conclusion r,
      url = Some (r_html_url r), downloadUrl = None, checkUrl = None, error = None\<rparr>"

text \<open>
  \<^verbatim>\<open>r.name.includes(workerId)\<close> on a run whose name is \<^verbatim>\<open>null\<close> or absent throws a
  \<^verbatim>\<open>TypeError\<close>, which is an \<^verbatim>\<open>Error\<close>. The message is the engine's; the one below is
  V8's for \<^verbatim>\<open>null\<close>.
\<close>

definition name_type_error :: js_exn where
  "name_type_error = JsError ''Cannot read properties of null (reading 'includes')''"

text \<open>
  \<^verbatim>\<open>data.workflow_runs.find(r => ...)\<close>, lines 50 to 53: the runs are tried in list order.
  The name is dereferenced first, so a run without a name makes the predicate throw, and
  \<^verbatim>\<open>find\<close> with it, unless an earlier run has already been accepted.
\<close>

fun find_run :: "string \<Rightarrow> int \<Rightarrow> WorkflowRun list \<Rightarrow> js_exn + WorkflowRun option" where
  "find_run workerId now [] = Inr None"
| "find_run workerId now (r # rs) =
     (case r_name r of
        None \<Rightarrow> Inl name_type_error
      | Some nm \<Rightarrow>
          if includes_str nm workerId \<or> recent_dispatch now r then Inr (Some r)
          else find_run workerId now rs)"

text \<open>
  \<^verbatim>\<open>getRunStatus\<close>. The listing call \<^verbatim>\<open>listWorkflowRuns\<close> either throws (\<open>Inl\<close>) or gives the
  page of runs; nothing in \<^verbatim>\<open>getRunStatus\<close> catches what the call or the predicate throws.
\<close>

definition getRunStatus ::
  "string \<Rightarrow> int \<Rightarrow> js_exn + WorkflowRun list \<Rightarrow> js_exn + WorkflowRunStatus option" where
  "getRunStatus workerId now listing =
     (case listing of
        Inl e \<Rightarrow> Inl e
      | Inr workflow_runs \<Rightarrow>
          (case find_run workerId now workflow_runs of
             Inl e \<Rightarrow> Inl e
           | Inr None \<Rightarrow> Inr None
           | Inr (Some r) \<Rightarrow> Inr (Some (snapshot r))))"

section \<open>pollWorkflowStatus\<close>

text \<open>
  What the loop meets on one pass: the reading of \<^verbatim>\<open>Date.now()\<close> in the \<^verbatim>\<open>while\<close> test, and,
  should the body run, what the listing call gives and the reading of \<^verbatim>\<open>Date.now()\<close> inside
  \<^verbatim>\<open>getRunStatus\<close>. The sleeps of \<^verbatim>\<open>interval\<close> milliseconds act on the clock only, so they
  show in the readings of the later passes. A run of the poller is a list of passes; the
  loop uses one for each test of its condition, and when the list is used up with the loop
  still going the model has no result (\<open>None\<close>).

  The spinner and the optional \<^verbatim>\<open>onProgress\<close> callback observe the loop without steering
  it; \<^verbatim>\<open>ClipperService.process\<close> passes no callback. They are left out.
\<close>

record pass =
  clock :: int
  fetch_clock :: int
  listing :: "js_exn + WorkflowRun list"

record PollOptions =
  interval :: "int option"
  timeout :: "int option"

text \<open>The object returned after the loop, line 130.\<close>

definition timeout_result :: "GitHubAdapter \<Rightarrow> WorkflowRunStatus" where
  "timeout_result gitHub =
     \<lparr>run_id = None, status = ''in_progress'', conclusion = None, url = None,
      downloadUrl = None, checkUrl = Some (getWorkflowUrl gitHub), error = None\<rparr>"

fun poll_loop ::
  "GitHubAdapter \<Rightarrow> string \<Rightarrow> int \<Rightarrow> int \<Rightarrow> pass list \<Rightarrow> (js_exn + WorkflowRunStatus) option" where
  "poll_loop gitHub workerId startTime tmo [] = None"
| "poll_loop gitHub workerId startTime tmo (p # ps) =
     (if clock p - startTime < tmo then
        (case getRunStatus workerId (fetch_clock p) (listing p) of
           Inl e \<Rightarrow> Some (Inl e)
         | Inr None \<Rightarrow> poll_loop gitHub workerId startTime tmo ps
         | Inr (Some st) \<Rightarrow>
             if status st = ''completed'' then Some (Inr st)
             else if status st = ''failed'' then Some (Inr st)
             else poll_loop gitHub workerId startTime tmo ps)
      else Some (Inr (timeout_result gitHub)))"

text \<open>
  \<^verbatim>\<open>pollWorkflowStatus(gitHub, workerId, options)\<close>, with the defaults of line 98;
  \<open>startTime\<close> is the reading of \<^verbatim>\<open>Date.now()\<close> of line 99.
\<close>

definition timeout_of :: "PollOptions \<Rightarrow> int" where
  "timeout_of options = (case timeout options of Some t \<Rightarrow> t | None \<Rightarrow> 600000)"

definition pollWorkflowStatus ::
  "GitHubAdapter \<Rightarrow> string \<Rightarrow> PollOptions \<Rightarrow> int \<Rightarrow> pass list
     \<Rightarrow> (js_exn + WorkflowRunStatus) option" where
  "pollWorkflowStatus gitHub workerId options startTime passes =
     poll_loop gitHub workerId startTime (timeout_of options) passes"

definition default_options :: PollOptions where
  "default_options = \<lparr>interval = None, timeout = None\<rparr>"

section \<open>ClipperService.process\<close>

text \<open>
  The service's collaborators are the GitHub adapter and the Telegram adapter. One run of
  \<^verbatim>\<open>process\<close> meets: what \<^verbatim>\<open>triggerWorkflow\<close> does (\<open>None\<close>: it resolves; \<open>Some e\<close>: it
  throws \<open>e\<close>), the clock readings and listings of the poller, and what the Telegram bot
  library does when \<^verbatim>\<open>TelegramAdapter\<close> calls its \<^verbatim>\<open>sendVideo\<close> and \<^verbatim>\<open>sendMessage\<close>. The
  result is what \<^verbatim>\<open>process\<close> throws, if anything, and the calls it made on its
  collaborators, in order. Console output is left out.
\<close>

record TelegramConfig =
  token :: string
  chatId :: string

record run_env =
  triggerWorkflow :: "js_exn option"
  poll_start :: int
  poll_passes :: "pass list"
  bot_sendVideo :: "js_exn option"
  bot_sendMessage :: "js_exn option"

text \<open>
  \<^verbatim>\<open>TelegramAdapter.sendVideo(options)\<close> begins with
  \<^verbatim>\<open>const { videoPath, caption } = options\<close>. \<^verbatim>\<open>process\<close> passes \<^verbatim>\<open>result.downloadUrl\<close> as
  \<^verbatim>\<open>options\<close>: when that is \<^verbatim>\<open>undefined\<close> the destructuring throws a \<^verbatim>\<open>TypeError\<close> (the
  message is the engine's); when it is a string the bot's \<^verbatim>\<open>sendVideo\<close> is called.
  \<^verbatim>\<open>TelegramAdapter.sendError(message)\<close> goes through \<^verbatim>\<open>sendMessage\<close> to the bot's
  \<^verbatim>\<open>sendMessage\<close>.
\<close>

definition destructure_type_error :: js_exn where
  "destructure_type_error =
     JsError ''Cannot destructure property 'videoPath' of 'options' as it is undefined.''"

definition sendVideo :: "run_env \<Rightarrow> string option \<Rightarrow> js_exn option" where
  "sendVideo env options =
     (case options of
        None \<Rightarrow> Some destructure_type_error
      | Some videoUrl \<Rightarrow> bot_sendVideo env)"

definition sendError :: "run_env \<Rightarrow> string \<Rightarrow> js_exn option" where
  "sendError env message = bot_sendMessage env"

datatype effect =
    TriggerWorkflow string string
  | SendVideo "string option" string
  | SendError string string

type_synonym outcome = "js_exn option \<times> effect list"

text \<open>\<^verbatim>\<open>this.config.telegram.token && this.config.telegram.chatId\<close>: both non-empty.\<close>

definition telegram_configured :: "TelegramConfig \<Rightarrow> bool" where
  "telegram_configured tg \<longleftrightarrow> token tg \<noteq> [] \<and> chatId tg \<noteq> []"

text \<open>\<^verbatim>\<open>error instanceof Error ? error.message : 'Unknown error'\<close>\<close>

fun errorMessage :: "js_exn \<Rightarrow> string" where
  "errorMessage (JsError m) = m"
| "errorMessage JsNonError = ''Unknown error''"

text \<open>\<^verbatim>\<open>result.error || 'Workflow failed'\<close>\<close>

definition failure_reason :: "WorkflowRunStatus \<Rightarrow> string" where
  "failure_reason result =
     (case error result of
        None \<Rightarrow> ''Workflow failed''
      | Some m \<Rightarrow> if m = [] then ''Workflow failed'' else m)"

text \<open>The \<^verbatim>\<open>try\<close> block of \<^verbatim>\<open>process\<close>, lines 30 to 61.\<close>

definition try_block ::
  "TelegramConfig \<Rightarrow> GitHubAdapter \<Rightarrow> run_env \<Rightarrow> string \<Rightarrow> bool \<Rightarrow> string \<Rightarrow> outcome option" where
  "try_block tg gitHub env youtubeUrl watch workerId =
     (let triggered = [TriggerWorkflow youtubeUrl workerId] in
      case triggerWorkflow env of
        Some e \<Rightarrow> Some (Some e, triggered)
      | None \<Rightarrow>
          if watch then
            (case pollWorkflowStatus gitHub workerId default_options
                    (poll_start env) (poll_passes env) of
               None \<Rightarrow> None
             | Some (Inl e) \<Rightarrow> Some (Some e, triggered)
             | Some (Inr result) \<Rightarrow>
                 if status result = ''completed'' then
                   (if telegram_configured tg
                    then Some (sendVideo env (downloadUrl result),
                               triggered @ [SendVideo (downloadUrl result) workerId])
                    else Some (None, triggered))
                 else if status result = ''failed'' then
                   Some (Some (JsError (failure_reason result)), triggered)
                 else Some (None, triggered))
          else Some (None, triggered))"

text \<open>
  \<^verbatim>\<open>process\<close>: the \<^verbatim>\<open>try\<close> block and the \<^verbatim>\<open>catch\<close> clause of lines 62 to 72. When
  \<^verbatim>\<open>sendError\<close> throws inside the \<^verbatim>\<open>catch\<close> clause, \<^verbatim>\<open>throw error\<close> is not reached. The
  adapter's \<^verbatim>\<open>sendError\<close> has one parameter, so of the two arguments of line 68 it takes the
  worker id as its message.
\<close>

definition process ::
  "TelegramConfig \<Rightarrow> GitHubAdapter \<Rightarrow> run_env \<Rightarrow> string \<Rightarrow> bool \<Rightarrow> string \<Rightarrow> outcome option" where
  "process tg gitHub env youtubeUrl watch workerId =
     (case try_block tg gitHub env youtubeUrl watch workerId of
        None \<Rightarrow> None
      | Some (None, effects) \<Rightarrow> Some (None, effects)
      | Some (Some e, effects) \<Rightarrow>
          (let msg = errorMessage e in
           if telegram_configured tg then
             (case sendError env workerId of
                Some e' \<Rightarrow> Some (Some e', effects @ [SendError workerId msg])
              | None \<Rightarrow> Some (Some e, effects @ [SendError workerId msg]))
           else Some (Some e, effects)))"

section \<open>Conditions on the backing sources, and sample inputs\<close>

text \<open>
  What the key file of a service gives: no keys (absent, or readable with no key line), or
  at least one key. An unreadable file is neither. \<open>env_set\<close> is the test
  \<^verbatim>\<open>process.env[envVar]\<close> of line 181.
\<close>

definition yields_no_keys :: "world \<Rightarrow> ServiceName \<Rightarrow> bool" where
  "yields_no_keys w n \<longleftrightarrow>
     (case files w (KEY_FILES n) of
        Absent \<Rightarrow> True
      | Unreadable msg \<Rightarrow> False
      | Content content \<Rightarrow> parse_keys content = [])"

definition yields_keys :: "world \<Rightarrow> ServiceName \<Rightarrow> bool" where
  "yields_keys w n \<longleftrightarrow>
     (case files w (KEY_FILES n) of
        Absent \<Rightarrow> False
      | Unreadable msg \<Rightarrow> False
      | Content content \<Rightarrow> parse_keys content \<noteq> [])"

definition env_set :: "world \<Rightarrow> ServiceName \<Rightarrow> bool" where
  "env_set w n \<longleftrightarrow> (case environ w (ENV_VARS n) of Some v \<Rightarrow> v \<noteq> [] | None \<Rightarrow> False)"

text \<open>A call that empties the cache of service \<open>n\<close>.\<close>

definition clears :: "ServiceName \<Rightarrow> call \<Rightarrow> bool" where
  "clears n c \<longleftrightarrow> c = ClearCache (Some n) \<or> c = ClearCache None"

text \<open>The keys the file of a service gives: none when it is absent or unreadable.\<close>

definition file_keys :: "world \<Rightarrow> ServiceName \<Rightarrow> jstring list" where
  "file_keys w n =
     (case files w (KEY_FILES n) of
        Absent \<Rightarrow> []
      | Unreadable msg \<Rightarrow> []
      | Content content \<Rightarrow> parse_keys content)"

text \<open>A call that makes the object load the pool of service \<open>n\<close>.\<close>

definition loads :: "ServiceName \<Rightarrow> call \<Rightarrow> bool" where
  "loads n c \<longleftrightarrow> c = GetNext n \<or> c = GetAll n \<or> c = GetCount n \<or> c = Has n"

text \<open>The code units of a text written in ASCII, and four keys.\<close>

definition ascii :: "string \<Rightarrow> jstring" where
  "ascii s = map of_char s"

definition key_a :: jstring where
  "key_a = ascii ''key-a''"

definition key_b :: jstring where
  "key_b = ascii ''key-b''"

definition key_c :: jstring where
  "key_c = ascii ''key-c''"

definition env_key :: jstring where
  "env_key = ascii ''env-key''"

text \<open>
  A world in which only the deepgram key file and \<^verbatim>\<open>DEEPGRAM_API_KEY\<close> may be present, and
  four key files. The last one starts with a byte order mark and holds one comment line.
\<close>

definition deepgram_world :: "key_file \<Rightarrow> jstring option \<Rightarrow> world" where
  "deepgram_world f v =
     \<lparr>files = (\<lambda>_. Absent)(''deepgram-keys.txt'' := f),
      environ = Map.empty(''DEEPGRAM_API_KEY'' := v)\<rparr>"

definition two_keys_file :: key_file where
  "two_keys_file =
     Content (ascii ''# deepgram'' @ [10] @ key_a @ [10, 10] @ ascii ''  key-b '' @ [10])"

definition three_keys_file :: key_file where
  "three_keys_file = Content (key_a @ [10] @ key_b @ [10] @ key_c)"

definition one_key_file :: key_file where
  "one_key_file = Content key_a"

definition bom_comment_file :: key_file where
  "bom_comment_file = Content ([0xFEFF] @ ascii ''# keys go here'' @ [10])"

text \<open>
  Two keys are handed out from a pool of three, the file is rewritten to hold one key, the
  cache is cleared and the pool is loaded again.
\<close>

definition shrink_calls :: "(world \<times> call) list" where
  "shrink_calls =
     [(deepgram_world three_keys_file None, GetNext deepgram),
      (deepgram_world three_keys_file None, GetNext deepgram),
      (deepgram_world one_key_file None, ClearCache (Some deepgram)),
      (deepgram_world one_key_file None, Has deepgram)]"

text \<open>
  Calls made after the environment variable has been set: none of them clears the cache of
  deepgram.
\<close>

definition memo_calls :: "(world \<times> call) list" where
  "memo_calls =
     [(deepgram_world Absent (Some env_key), GetNext deepgram),
      (deepgram_world Absent (Some env_key), Has deepgram),
      (deepgram_world Absent (Some env_key), ClearCache (Some gemini)),
      (deepgram_world Absent (Some env_key), ResetRotation deepgram),
      (deepgram_world Absent (Some env_key), GetCount deepgram)]"

section \<open>Conditions on a pass of the poller, and sample inputs\<close>

text \<open>
  A pass is within the budget when the \<^verbatim>\<open>while\<close> test holds at its clock reading. It keeps
  the loop polling when the fetch neither throws nor reports \<^verbatim>\<open>completed\<close> or \<^verbatim>\<open>failed\<close>:
  no run found, or a run in some other status.
\<close>

definition within_budget :: "int \<Rightarrow> int \<Rightarrow> pass \<Rightarrow> bool" where
  "within_budget startTime tmo p \<longleftrightarrow> clock p - startTime < tmo"

definition keeps_polling :: "string \<Rightarrow> pass \<Rightarrow> bool" where
  "keeps_polling workerId p \<longleftrightarrow>
     (case getRunStatus workerId (fetch_clock p) (listing p) of
        Inl e \<Rightarrow> False
      | Inr None \<Rightarrow> True
      | Inr (Some st) \<Rightarrow> status st \<noteq> ''completed'' \<and> status st \<noteq> ''failed'')"

definition sample_adapter :: GitHubAdapter where
  "sample_adapter = \<lparr>owner = ''o'', repo = ''r'', workflowId = ''render.yml''\<rparr>"

definition sample_worker :: string where
  "sample_worker = ''clipper-1000-ab12cd''"

definition sample_name :: string where
  "sample_name = ''Render '' @ sample_worker"

definition sample_url :: string where
  "sample_url = ''https://youtu.be/x''"

text \<open>A run whose id is its creation time, so that runs created at different times differ.\<close>

definition sample_run :: "string \<Rightarrow> string \<Rightarrow> int \<Rightarrow> string \<Rightarrow> string option \<Rightarrow> WorkflowRun" where
  "sample_run nm ev created st concl =
     \<lparr>r_id = created, r_name = Some nm, r_event = ev, r_created_at = created, r_status = st,
      r_conclusion = concl, r_html_url = ''https://github.com/o/r/actions/runs/1''\<rparr>"

text \<open>
  Three runs listed at time 1000000 for a dispatch made at time 995000: two dispatch runs
  whose names do not hold the worker id, created 4000 ms and 1000 ms after the dispatch, and
  the run that holds the worker id. \<open>stale_run\<close> is a dispatch run of an hour before.
\<close>

definition newer_run :: WorkflowRun where
  "newer_run = sample_run ''Render'' ''workflow_dispatch'' 999000 ''queued'' None"

definition older_run :: WorkflowRun where
  "older_run = sample_run ''Render'' ''workflow_dispatch'' 996000 ''in_progress'' None"

definition token_run :: WorkflowRun where
  "token_run = sample_run sample_name ''workflow_dispatch'' 997000 ''in_progress'' None"

definition stale_run :: WorkflowRun where
  "stale_run = sample_run ''Render'' ''workflow_dispatch'' (- 2600000) ''completed'' (Some ''success'')"

text \<open>
  Two runs whose name is \<^verbatim>\<open>null\<close>: a dispatch run created 3000 ms after the dispatch, and a
  dispatch run of an hour before.
\<close>

definition unnamed_run :: WorkflowRun where
  "unnamed_run = (sample_run [] ''workflow_dispatch'' 998000 ''queued'' None)\<lparr>r_name := None\<rparr>"

definition unnamed_stale_run :: WorkflowRun where
  "unnamed_stale_run = stale_run\<lparr>r_name := None\<rparr>"

text \<open>Passes: the listing is empty, the listing call throws, the listing holds the run.\<close>

definition empty_pass :: "int \<Rightarrow> pass" where
  "empty_pass t = \<lparr>clock = t, fetch_clock = t, listing = Inr []\<rparr>"

definition failing_pass :: "int \<Rightarrow> pass" where
  "failing_pass t = \<lparr>clock = t, fetch_clock = t, listing = Inl (JsError ''ECONNRESET'')\<rparr>"

definition run_pass :: "int \<Rightarrow> string \<Rightarrow> string option \<Rightarrow> pass" where
  "run_pass t st concl =
     \<lparr>clock = t, fetch_clock = t,
      listing = Inr [sample_run sample_name ''workflow_dispatch'' 1000 st concl]\<rparr>"

definition sample_telegram :: TelegramConfig where
  "sample_telegram = \<lparr>token = ''bot-token'', chatId = ''42''\<rparr>"

text \<open>
  The dispatch succeeds, the first listing is empty, the second shows the run completed
  with conclusion \<^verbatim>\<open>failure\<close>; the Telegram bot accepts whatever it is sent.
\<close>

definition failed_run_env :: run_env where
  "failed_run_env =
     \<lparr>triggerWorkflow = None, poll_start = 2000,
      poll_passes = [empty_pass 2000, run_pass 7000 ''completed'' (Some ''failure'')],
      bot_sendVideo = None, bot_sendMessage = None\<rparr>"

text \<open>The dispatch is rejected; \<open>notify\<close> is what the bot's \<^verbatim>\<open>sendMessage\<close> does.\<close>

definition rejected_env :: "js_exn option \<Rightarrow> run_env" where
  "rejected_env notify =
     \<lparr>triggerWorkflow = Some (JsError ''HTTP 422''), poll_start = 2000, poll_passes = [],
      bot_sendVideo = None, bot_sendMessage = notify\<rparr>"



definition short_options :: PollOptions where
  "short_options = \<lparr>interval = Some 5000, timeout = Some 10000\<rparr>"

text \<open>
  Two runs of the poller with a budget of 10000 ms in which the run never completes: the
  listing call throws at 5000 ms; the remote reports the status \<^verbatim>\<open>failed\<close> at 5000 ms.
\<close>

definition error_before_timeout :: "pass list" where
  "error_before_timeout =
     [run_pass 0 ''in_progress'' None, failing_pass 5000, empty_pass 10000]"

definition failed_before_timeout :: "pass list" where
  "failed_before_timeout =
     [run_pass 0 ''in_progress'' None, run_pass 5000 ''failed'' None, empty_pass 10000]"

section \<open>Properties of KeyRotation\<close>

subsection \<open>Loading\<close>

lemma loadKeys_cached: "keysCache s n = Some keys \<Longrightarrow> loadKeys w s n = (Inr keys, s)"
  by (simp add: loadKeys_def)

lemma loadKeys_uncached:
  "keysCache s n = None \<Longrightarrow>
   loadKeys w s n =
     (case read_sources w n of
        Inl e \<Rightarrow> (Inl e, s)
      | Inr keys \<Rightarrow> (Inr keys, s\<lparr>keysCache := (keysCache s)(n \<mapsto> keys)\<rparr>))"
  by (simp add: loadKeys_def)

lemma read_sources_none:
  "yields_no_keys w n \<Longrightarrow> \<not> env_set w n \<Longrightarrow> read_sources w n = Inr []"
  by (auto simp: read_sources_def yields_no_keys_def env_set_def Let_def
           split: key_file.splits option.splits)

lemma read_sources_file:
  "yields_keys w n \<Longrightarrow> read_sources w n = Inr (file_keys w n)"
  by (auto simp: read_sources_def yields_keys_def file_keys_def Let_def
           split: key_file.splits option.splits)

lemma read_sources_env:
  "yields_no_keys w n \<Longrightarrow> environ w (ENV_VARS n) = Some v \<Longrightarrow> v \<noteq> [] \<Longrightarrow>
   read_sources w n = Inr [v]"
  by (auto simp: read_sources_def yields_no_keys_def Let_def split: key_file.splits)

lemma read_sources_unreadable:
  "files w (KEY_FILES n) = Unreadable msg \<Longrightarrow>
   read_sources w n = Inl (KeyFileReadFailed (KEY_FILES n) msg)"
  by (simp add: read_sources_def Let_def)

text \<open>What each accessor answers in terms of what \<^verbatim>\<open>loadKeys\<close> gives.\<close>

lemma getNextKey_loaded:
  "fst (getNextKey w s n) =
     (case fst (loadKeys w s n) of
        Inl e \<Rightarrow> Inl e
      | Inr keys \<Rightarrow>
          if keys = [] then Inl (NoKeysAvailable n)
          else Inr (if cursor s n < length keys then Key (keys ! cursor s n) else Undefined))"
  by (cases "keysCache s n")
     (auto simp: getNextKey_def loadKeys_def cursor_def Let_def split: sum.splits option.splits)

lemma hasKeys_loaded:
  "fst (hasKeys w s n) =
     (case fst (loadKeys w s n) of Inl e \<Rightarrow> Inl e | Inr keys \<Rightarrow> Inr (keys \<noteq> []))"
  by (cases "loadKeys w s n") (auto simp: hasKeys_def split: sum.splits)

lemma getKeyCount_loaded:
  "fst (getKeyCount w s n) =
     (case fst (loadKeys w s n) of Inl e \<Rightarrow> Inl e | Inr keys \<Rightarrow> Inr (length keys))"
  by (cases "loadKeys w s n") (auto simp: getKeyCount_def split: sum.splits)

text \<open>The sample key files, read.\<close>

lemmas sample_text_defs =
  ascii_def key_a_def key_b_def key_c_def env_key_def parse_keys_def trim_def is_space_def
  startsWith_def

lemma read_two_keys:
  "read_sources (deepgram_world two_keys_file None) deepgram = Inr [key_a, key_b]"
  by (simp add: read_sources_def deepgram_world_def two_keys_file_def sample_text_defs)

lemma read_three_keys:
  "read_sources (deepgram_world three_keys_file None) deepgram = Inr [key_a, key_b, key_c]"
  by (simp add: read_sources_def deepgram_world_def three_keys_file_def sample_text_defs)

lemma read_one_key:
  "read_sources (deepgram_world one_key_file None) deepgram = Inr [key_a]"
  by (simp add: read_sources_def deepgram_world_def one_key_file_def sample_text_defs)

lemma env_key_nonempty: "env_key \<noteq> []"
  by (simp add: env_key_def ascii_def)

lemma read_env_key:
  "read_sources (deepgram_world Absent (Some env_key)) deepgram = Inr [env_key]"
  by (simp add: read_sources_def deepgram_world_def env_key_nonempty)

subsection \<open>Round-robin rotation\<close>

text \<open>
  One call on a pool that loads as \<open>keys\<close>, with the cursor inside the pool: the key under
  the cursor is returned, the pool stays cached and the cursor moves on by one, modulo the
  size of the pool.
\<close>

lemma getNextKey_step:
  assumes "fst (loadKeys w s n) = Inr keys" and "keys \<noteq> []" and "cursor s n < length keys"
  shows "fst (getNextKey w s n) = Inr (Key (keys ! cursor s n))"
    and "keysCache (snd (getNextKey w s n)) n = Some keys"
    and "cursor (snd (getNextKey w s n)) n = Suc (cursor s n) mod length keys"
  using assms
  by (auto simp: getNextKey_def loadKeys_def cursor_def
           split: option.splits sum.splits prod.splits)

lemma getNextKeys_cycle:
  assumes "fst (loadKeys w s n) = Inr keys" and "keys \<noteq> []" and "cursor s n < length keys"
  shows "fst (getNextKeys w s n k) =
           map (\<lambda>i. Inr (Key (keys ! ((cursor s n + i) mod length keys)))) [0..<k]"
  using assms
proof (induction k arbitrary: s)
  case 0
  then show ?case by simp
next
  case (Suc k)
  obtain r s' where step: "getNextKey w s n = (r, s')" by (cases "getNextKey w s n")
  from getNextKey_step [OF Suc.prems] step
  have r: "r = Inr (Key (keys ! cursor s n))"
    and cache: "keysCache s' n = Some keys"
    and cur: "cursor s' n = Suc (cursor s n) mod length keys"
    by simp_all
  from cache have load: "fst (loadKeys w s' n) = Inr keys" by (simp add: loadKeys_cached)
  from Suc.prems(2) have lt: "cursor s' n < length keys" by (simp add: cur)
  have rest: "fst (getNextKeys w s' n k) =
           map (\<lambda>i. Inr (Key (keys ! ((cursor s' n + i) mod length keys)))) [0..<k]"
    by (rule Suc.IH [OF load Suc.prems(2) lt])
  have idx: "(cursor s' n + i) mod length keys = (cursor s n + Suc i) mod length keys" for i
    by (simp add: cur mod_simps)
  have "fst (getNextKeys w s n (Suc k)) = r # fst (getNextKeys w s' n k)"
    by (simp add: step split: prod.splits)
  also have "\<dots> = map (\<lambda>i. Inr (Key (keys ! ((cursor s n + i) mod length keys)))) [0..<Suc k]"
    unfolding rest idx r
    using Suc.prems(3)
    by (simp only: upt_conv_Cons [of 0 "Suc k"] map_Suc_upt [symmetric] list.map)
       (simp add: o_def)
  finally show ?case .
qed

text \<open>
  C4. For a pool of \<open>n \<ge> 1\<close> keys that is loaded once and not reloaded, and a cursor at its
  start, \<open>n + 1\<close> successive calls of \<^verbatim>\<open>getNextKey\<close> return the keys of the pool in pool
  order, each position once, and then the first key again.
\<close>

theorem getNextKey_round_robin:
  assumes "fst (loadKeys w s n) = Inr keys" and "keys \<noteq> []" and "cursor s n = 0"
  shows "fst (getNextKeys w s n (length keys + 1)) =
           map (\<lambda>k. Inr (Key k)) keys @ [Inr (Key (hd keys))]"
proof -
  from assms(2,3) have lt: "cursor s n < length keys" by simp
  have "map (\<lambda>i. keys ! (i mod length keys)) [0..<length keys]
          = map (\<lambda>i. keys ! i) [0..<length keys]"
    by (rule map_cong) simp_all
  then have pool: "map (\<lambda>i. keys ! (i mod length keys)) [0..<length keys] = keys"
    by (simp add: map_nth)
  have "map (\<lambda>i. Inr (Key (keys ! (i mod length keys)))) [0..<length keys]
          = map (\<lambda>k. Inr (Key k)) (map (\<lambda>i. keys ! (i mod length keys)) [0..<length keys])"
    by (simp add: comp_def)
  with pool assms(2) show ?thesis
    by (simp add: getNextKeys_cycle [OF assms(1,2) lt] assms(3) hd_conv_nth
             del: getNextKeys.simps)
qed

theorem getNextKey_round_robin_witness:
  "fst (loadKeys (deepgram_world two_keys_file None) newKeyRotation deepgram)
     = Inr [key_a, key_b] \<and>
   cursor newKeyRotation deepgram = 0 \<and>
   fst (getNextKeys (deepgram_world two_keys_file None) newKeyRotation deepgram 3)
     = [Inr (Key key_a), Inr (Key key_b), Inr (Key key_a)]"
proof -
  have load: "fst (loadKeys (deepgram_world two_keys_file None) newKeyRotation deepgram)
                = Inr [key_a, key_b]"
    by (simp add: loadKeys_def newKeyRotation_def read_two_keys)
  have fresh: "cursor newKeyRotation deepgram = 0"
    by (simp add: cursor_def newKeyRotation_def)
  have three: "length [key_a, key_b] + 1 = (3::nat)" by simp
  have "fst (getNextKeys (deepgram_world two_keys_file None) newKeyRotation deepgram
               (length [key_a, key_b] + 1))
          = map (\<lambda>k. Inr (Key k)) [key_a, key_b] @ [Inr (Key (hd [key_a, key_b]))]"
    using load _ fresh by (rule getNextKey_round_robin) simp
  then have "fst (getNextKeys (deepgram_world two_keys_file None) newKeyRotation deepgram 3)
          = [Inr (Key key_a), Inr (Key key_b), Inr (Key key_a)]"
    unfolding three by simp
  with load fresh show ?thesis by simp
qed

subsection \<open>Failing for want of keys\<close>

text \<open>
  C6 fails as stated. With \<^verbatim>\<open>DEEPGRAM_API_KEY\<close> set and a key file that exists but cannot be
  read, \<^verbatim>\<open>getNextKey\<close> throws the read error of line 173 on a fresh object; and once an empty
  pool has been cached, \<^verbatim>\<open>getNextKey\<close> throws for want of keys although the variable has
  been set since.
\<close>

theorem getNextKey_keys_present_counterexample:
  "env_set (deepgram_world (Unreadable ''EACCES'') (Some env_key)) deepgram \<and>
   fst (getNextKey (deepgram_world (Unreadable ''EACCES'') (Some env_key))
          newKeyRotation deepgram)
     = Inl (KeyFileReadFailed ''deepgram-keys.txt'' ''EACCES'') \<and>
   env_set (deepgram_world Absent (Some env_key)) deepgram \<and>
   fst (getNextKey (deepgram_world Absent (Some env_key))
          (snd (getNextKey (deepgram_world Absent None) newKeyRotation deepgram)) deepgram)
     = Inl (NoKeysAvailable deepgram)"
  by (simp add: env_set_def deepgram_world_def getNextKey_def loadKeys_def read_sources_def
        newKeyRotation_def env_key_nonempty)

text \<open>
  C6, amended. On an access that finds no cached pool for the service (the first access, or
  the first after \<^verbatim>\<open>clearCache\<close>): when the key file is absent or readable with no key line
  and the environment variable is unset or empty, \<^verbatim>\<open>getNextKey\<close> throws the no-keys error;
  when the file is readable with a key line and the cursor is inside the pool of the file's
  keys, \<^verbatim>\<open>getNextKey\<close> returns the key of that pool under the cursor (the first key for a
  cursor at 0, as on a new object); when the file gives no keys, the variable holds a
  non-empty value and the cursor is at 0, \<^verbatim>\<open>getNextKey\<close> returns that value; when the file
  exists and cannot be read, \<^verbatim>\<open>getNextKey\<close> throws the read error, whatever the variable
  holds.
\<close>

theorem getNextKey_first_access:
  assumes "keysCache s n = None"
  shows "(yields_no_keys w n \<and> \<not> env_set w n \<longrightarrow>
            fst (getNextKey w s n) = Inl (NoKeysAvailable n)) \<and>
         (yields_keys w n \<and> cursor s n < length (file_keys w n) \<longrightarrow>
            fst (getNextKey w s n) = Inr (Key (file_keys w n ! cursor s n))) \<and>
         (\<forall>v. yields_no_keys w n \<and> environ w (ENV_VARS n) = Some v \<and> v \<noteq> [] \<and> cursor s n = 0 \<longrightarrow>
            fst (getNextKey w s n) = Inr (Key v)) \<and>
         (\<forall>msg. files w (KEY_FILES n) = Unreadable msg \<longrightarrow>
            fst (getNextKey w s n) = Inl (KeyFileReadFailed (KEY_FILES n) msg))"
proof (intro conjI impI allI)
  assume "yields_no_keys w n \<and> \<not> env_set w n"
  then have "fst (loadKeys w s n) = Inr []"
    by (simp add: loadKeys_uncached [OF assms] read_sources_none)
  then show "fst (getNextKey w s n) = Inl (NoKeysAvailable n)"
    by (simp add: getNextKey_loaded)
next
  assume a: "yields_keys w n \<and> cursor s n < length (file_keys w n)"
  then have "fst (loadKeys w s n) = Inr (file_keys w n)"
    by (simp add: loadKeys_uncached [OF assms] read_sources_file)
  with a show "fst (getNextKey w s n) = Inr (Key (file_keys w n ! cursor s n))"
    by (auto simp: getNextKey_loaded)
next
  fix v
  assume a: "yields_no_keys w n \<and> environ w (ENV_VARS n) = Some v \<and> v \<noteq> [] \<and> cursor s n = 0"
  then have "fst (loadKeys w s n) = Inr [v]"
    by (simp add: loadKeys_uncached [OF assms] read_sources_env)
  with a show "fst (getNextKey w s n) = Inr (Key v)"
    by (simp add: getNextKey_loaded)
next
  fix msg assume "files w (KEY_FILES n) = Unreadable msg"
  then have "fst (loadKeys w s n) = Inl (KeyFileReadFailed (KEY_FILES n) msg)"
    by (simp add: loadKeys_uncached [OF assms] read_sources_unreadable)
  then show "fst (getNextKey w s n) = Inl (KeyFileReadFailed (KEY_FILES n) msg)"
    by (simp add: getNextKey_loaded)
qed

theorem getNextKey_first_access_witness:
  "fst (getNextKey (deepgram_world Absent None) newKeyRotation deepgram)
     = Inl (NoKeysAvailable deepgram) \<and>
   fst (getNextKey (deepgram_world bom_comment_file None) newKeyRotation deepgram)
     = Inl (NoKeysAvailable deepgram) \<and>
   fst (getNextKey (deepgram_world two_keys_file None) newKeyRotation deepgram)
     = Inr (Key key_a) \<and>
   fst (getNextKey (deepgram_world Absent (Some env_key)) newKeyRotation deepgram)
     = Inr (Key env_key) \<and>
   fst (getNextKey (deepgram_world (Unreadable ''EACCES'') None) newKeyRotation deepgram)
     = Inl (KeyFileReadFailed (KEY_FILES deepgram) ''EACCES'')"
proof -
  have fresh: "keysCache newKeyRotation deepgram = None"
    by (simp add: newKeyRotation_def)
  have start: "cursor newKeyRotation deepgram = 0"
    by (simp add: cursor_def newKeyRotation_def)
  have none: "yields_no_keys (deepgram_world Absent None) deepgram \<and>
              \<not> env_set (deepgram_world Absent None) deepgram"
    by (simp add: yields_no_keys_def env_set_def deepgram_world_def)
  have bom: "yields_no_keys (deepgram_world bom_comment_file None) deepgram \<and>
             \<not> env_set (deepgram_world bom_comment_file None) deepgram"
    by (simp add: yields_no_keys_def env_set_def deepgram_world_def bom_comment_file_def
          sample_text_defs)
  have pool: "file_keys (deepgram_world two_keys_file None) deepgram = [key_a, key_b]"
    by (simp add: file_keys_def deepgram_world_def two_keys_file_def sample_text_defs)
  then have from_file: "yields_keys (deepgram_world two_keys_file None) deepgram \<and>
      cursor newKeyRotation deepgram < length (file_keys (deepgram_world two_keys_file None) deepgram)"
    by (simp add: start) (simp add: yields_keys_def file_keys_def split: key_file.splits)
  have from_env: "yields_no_keys (deepgram_world Absent (Some env_key)) deepgram \<and>
             environ (deepgram_world Absent (Some env_key)) (ENV_VARS deepgram) = Some env_key \<and>
             env_key \<noteq> [] \<and> cursor newKeyRotation deepgram = 0"
    by (simp add: yields_no_keys_def deepgram_world_def env_key_nonempty start)
  have unreadable:
    "files (deepgram_world (Unreadable ''EACCES'') None) (KEY_FILES deepgram) = Unreadable ''EACCES''"
    by (simp add: deepgram_world_def)
  from getNextKey_first_access [OF fresh, of "deepgram_world Absent None"] none
  have 1: "fst (getNextKey (deepgram_world Absent None) newKeyRotation deepgram)
             = Inl (NoKeysAvailable deepgram)"
    by blast
  from getNextKey_first_access [OF fresh, of "deepgram_world bom_comment_file None"] bom
  have 2: "fst (getNextKey (deepgram_world bom_comment_file None) newKeyRotation deepgram)
             = Inl (NoKeysAvailable deepgram)"
    by blast
  from getNextKey_first_access [OF fresh, of "deepgram_world two_keys_file None"] from_file
  have "fst (getNextKey (deepgram_world two_keys_file None) newKeyRotation deepgram)
          = Inr (Key (file_keys (deepgram_world two_keys_file None) deepgram
                        ! cursor newKeyRotation deepgram))"
    by blast
  then have 3: "fst (getNextKey (deepgram_world two_keys_file None) newKeyRotation deepgram)
                  = Inr (Key key_a)"
    by (simp add: pool start)
  from getNextKey_first_access [OF fresh, of "deepgram_world Absent (Some env_key)"] from_env
  have 4: "fst (getNextKey (deepgram_world Absent (Some env_key)) newKeyRotation deepgram)
             = Inr (Key env_key)"
    by blast
  from getNextKey_first_access [OF fresh, of "deepgram_world (Unreadable ''EACCES'') None"]
    unreadable
  have 5: "fst (getNextKey (deepgram_world (Unreadable ''EACCES'') None) newKeyRotation deepgram)
             = Inl (KeyFileReadFailed (KEY_FILES deepgram) ''EACCES'')"
    by blast
  from 1 2 3 4 5 show ?thesis by blast
qed

subsection \<open>The cursor after a reload\<close>

text \<open>
  C7 fails on the code. \<^verbatim>\<open>clearCache\<close> leaves \<^verbatim>\<open>currentIndex\<close> as it is, and
  \<^verbatim>\<open>getNextKey\<close> reads \<^verbatim>\<open>keys[idx]\<close> without comparing \<^verbatim>\<open>idx\<close> with the size of the pool it
  has just loaded. After two keys have been handed out from a pool of three and the pool
  has been reloaded from a file that now holds one key, the stored cursor is 2 with a
  pool of size 1, and the next \<^verbatim>\<open>getNextKey\<close> returns \<^verbatim>\<open>undefined\<close>.
\<close>

theorem getNextKey_undefined_after_reload:
  "keysCache (run newKeyRotation shrink_calls) deepgram = Some [key_a] \<and>
   currentIndex (run newKeyRotation shrink_calls) deepgram = Some 2 \<and>
   fst (getNextKey (deepgram_world one_key_file None) (run newKeyRotation shrink_calls) deepgram)
     = Inr Undefined"
  by (simp add: run_def shrink_calls_def newKeyRotation_def getNextKey_def hasKeys_def
        loadKeys_def clearCache_def read_three_keys read_one_key)

subsection \<open>Memoization of an empty pool\<close>

lemma step_keeps_cache:
  assumes "keysCache s n = Some keys" and "\<not> clears n c"
  shows "keysCache (step s (w, c)) n = Some keys"
proof (cases c)
  case (ClearCache m)
  with assms show ?thesis
    by (cases m) (auto simp: clears_def clearCache_def)
qed (use assms in \<open>auto simp: getNextKey_def getAllKeys_def getKeyCount_def hasKeys_def
      resetRotation_def loadKeys_def Let_def split: option.splits sum.splits\<close>)

lemma run_keeps_cache:
  assumes "keysCache s n = Some keys" and "\<forall>wc \<in> set calls. \<not> clears n (snd wc)"
  shows "keysCache (run s calls) n = Some keys"
  using assms unfolding run_def
proof (induction calls arbitrary: s)
  case Nil
  then show ?case by simp
next
  case (Cons wc calls)
  obtain w c where wc: "wc = (w, c)" by (cases wc)
  with Cons.prems have "keysCache (step s (w, c)) n = Some keys"
    by (auto intro: step_keeps_cache)
  with Cons show ?case by (simp add: wc)
qed

text \<open>A first access that finds no keys leaves the empty pool in the cache.\<close>

lemma first_access_caches_empty:
  assumes "keysCache s n = None" and "yields_no_keys w n" and "\<not> env_set w n"
    and "loads n c"
  shows "keysCache (step s (w, c)) n = Some []"
proof -
  have "loadKeys w s n = (Inr [], s\<lparr>keysCache := (keysCache s)(n \<mapsto> [])\<rparr>)"
    by (simp add: loadKeys_uncached [OF assms(1)] read_sources_none [OF assms(2,3)])
  with assms(4) show ?thesis
    by (auto simp: loads_def getNextKey_def getAllKeys_def getKeyCount_def hasKeys_def)
qed

text \<open>After \<^verbatim>\<open>clearCache\<close> the pool is loaded from the sources again.\<close>

lemma loadKeys_after_clear:
  assumes "arg = Some n \<or> arg = None"
  shows "fst (loadKeys w (clearCache s arg) n) = read_sources w n"
    and "cursor (clearCache s arg) n = cursor s n"
proof -
  from assms have "keysCache (clearCache s arg) n = None"
    by (auto simp: clearCache_def)
  then show "fst (loadKeys w (clearCache s arg) n) = read_sources w n"
    by (simp add: loadKeys_uncached split: sum.splits)
  from assms show "cursor (clearCache s arg) n = cursor s n"
    by (auto simp: clearCache_def cursor_def)
qed

text \<open>
  C10. The first access for a service (any of \<^verbatim>\<open>getNextKey\<close>, \<^verbatim>\<open>getAllKeys\<close>,
  \<^verbatim>\<open>getKeyCount\<close>, \<^verbatim>\<open>hasKeys\<close>) finds no cached pool, a key file that is absent or without a
  key line, and the environment variable unset or empty. Then that access finds no keys
  (\<^verbatim>\<open>getNextKey\<close> throws the no-keys error, \<^verbatim>\<open>hasKeys\<close> returns false), and the empty pool
  is cached: after any further calls that do not clear the cache of the service, made in
  any worlds, \<^verbatim>\<open>getNextKey\<close> throws the no-keys error and \<^verbatim>\<open>hasKeys\<close> returns false in every
  world \<open>w\<close>, also one where the variable is set. After \<^verbatim>\<open>clearCache\<close> for the service (or
  for all services), the next access answers from what the backing sources of its world
  \<open>w'\<close> give: \<^verbatim>\<open>hasKeys\<close> whether they give a key, \<^verbatim>\<open>getNextKey\<close> the entry under the cursor
  or the error of an empty or unreadable source, \<^verbatim>\<open>getAllKeys\<close> and \<^verbatim>\<open>getKeyCount\<close> the keys
  and their number.
\<close>

theorem empty_pool_memoized:
  fixes s2 s3 :: KeyRotation
  assumes "keysCache s n = None" and "yields_no_keys w0 n" and "\<not> env_set w0 n"
    and "loads n first"
    and "\<forall>wc \<in> set calls. \<not> clears n (snd wc)"
    and "arg = Some n \<or> arg = None"
  defines "s2 \<equiv> run s ((w0, first) # calls)"
    and "s3 \<equiv> clearCache (run s ((w0, first) # calls)) arg"
  shows "fst (getNextKey w0 s n) = Inl (NoKeysAvailable n) \<and>
         fst (hasKeys w0 s n) = Inr False \<and>
         fst (getNextKey w s2 n) = Inl (NoKeysAvailable n) \<and>
         fst (hasKeys w s2 n) = Inr False \<and>
         fst (hasKeys w' s3 n) =
           (case read_sources w' n of Inl e \<Rightarrow> Inl e | Inr keys \<Rightarrow> Inr (keys \<noteq> [])) \<and>
         fst (getNextKey w' s3 n) =
           (case read_sources w' n of
              Inl e \<Rightarrow> Inl e
            | Inr keys \<Rightarrow>
                if keys = [] then Inl (NoKeysAvailable n)
                else Inr (if cursor s2 n < length keys then Key (keys ! cursor s2 n)
                          else Undefined)) \<and>
         fst (getAllKeys w' s3 n) = read_sources w' n \<and>
         fst (getKeyCount w' s3 n) =
           (case read_sources w' n of Inl e \<Rightarrow> Inl e | Inr keys \<Rightarrow> Inr (length keys))"
proof -
  have first: "fst (loadKeys w0 s n) = Inr []"
    by (simp add: loadKeys_uncached [OF assms(1)] read_sources_none [OF assms(2,3)])
  have "keysCache (step s (w0, first)) n = Some []"
    using assms(1-4) by (rule first_access_caches_empty)
  then have "keysCache (run (step s (w0, first)) calls) n = Some []"
    using assms(5) by (rule run_keeps_cache)
  then have memo: "keysCache s2 n = Some []"
    by (simp add: s2_def run_def)
  then have cached: "fst (loadKeys w s2 n) = Inr []"
    by (simp add: loadKeys_cached)
  have s3: "s3 = clearCache s2 arg"
    by (simp add: s2_def s3_def)
  have reload: "fst (loadKeys w' s3 n) = read_sources w' n"
    unfolding s3 using assms(6) by (rule loadKeys_after_clear(1))
  have same_cursor: "cursor s3 n = cursor s2 n"
    unfolding s3 using assms(6) by (rule loadKeys_after_clear(2))
  show ?thesis
    by (cases "read_sources w' n")
       (simp_all add: getNextKey_loaded hasKeys_loaded getKeyCount_loaded getAllKeys_def
          first cached reload same_cursor)
qed

theorem empty_pool_memoized_witness:
  "fst (getNextKey (deepgram_world Absent None) newKeyRotation deepgram)
     = Inl (NoKeysAvailable deepgram) \<and>
   fst (getNextKey (deepgram_world Absent (Some env_key))
          (run newKeyRotation ((deepgram_world Absent None, GetNext deepgram) # memo_calls))
          deepgram)
     = Inl (NoKeysAvailable deepgram) \<and>
   fst (hasKeys (deepgram_world Absent (Some env_key))
          (run newKeyRotation ((deepgram_world Absent None, GetNext deepgram) # memo_calls))
          deepgram)
     = Inr False \<and>
   fst (hasKeys (deepgram_world Absent (Some env_key))
          (clearCache
             (run newKeyRotation ((deepgram_world Absent None, GetNext deepgram) # memo_calls))
             (Some deepgram)) deepgram)
     = Inr True \<and>
   fst (getNextKey (deepgram_world Absent (Some env_key))
          (clearCache
             (run newKeyRotation ((deepgram_world Absent None, GetNext deepgram) # memo_calls))
             (Some deepgram)) deepgram)
     = Inr (Key env_key) \<and>
   fst (getKeyCount (deepgram_world Absent (Some env_key))
          (clearCache
             (run newKeyRotation ((deepgram_world Absent None, GetNext deepgram) # memo_calls))
             (Some deepgram)) deepgram)
     = Inr 1"
proof -
  have fresh: "keysCache newKeyRotation deepgram = None"
    by (simp add: newKeyRotation_def)
  have nofile: "yields_no_keys (deepgram_world Absent None) deepgram"
    by (simp add: yields_no_keys_def deepgram_world_def)
  have noenv: "\<not> env_set (deepgram_world Absent None) deepgram"
    by (simp add: env_set_def deepgram_world_def)
  have first: "loads deepgram (GetNext deepgram)"
    by (simp add: loads_def)
  have noclear: "\<forall>wc \<in> set memo_calls. \<not> clears deepgram (snd wc)"
    by (simp add: memo_calls_def clears_def)
  have arg: "Some deepgram = Some deepgram \<or> Some deepgram = None"
    by simp
  have start: "cursor (run newKeyRotation
                   ((deepgram_world Absent None, GetNext deepgram) # memo_calls)) deepgram = 0"
    by (simp add: run_def memo_calls_def newKeyRotation_def cursor_def getNextKey_def
          hasKeys_def getKeyCount_def loadKeys_def clearCache_def resetRotation_def
          read_sources_def deepgram_world_def)
  from empty_pool_memoized [OF fresh nofile noenv first noclear arg,
      of "deepgram_world Absent (Some env_key)" "deepgram_world Absent (Some env_key)"]
  show ?thesis
    by (simp add: read_env_key start env_key_nonempty)
qed

section \<open>Properties of getRunStatus\<close>

text \<open>How \<^verbatim>\<open>find\<close> goes through the list.\<close>

lemma find_run_skip:
  "\<forall>x \<in> set pre. r_name x \<noteq> None \<and> \<not> run_accepted workerId now x \<Longrightarrow>
   find_run workerId now (pre @ rest) = find_run workerId now rest"
  by (induction pre) (auto simp: run_accepted_def name_matches_def split: option.splits)

lemma find_run_accept:
  "r_name c \<noteq> None \<Longrightarrow> run_accepted workerId now c \<Longrightarrow>
   find_run workerId now (c # rest) = Inr (Some c)"
  by (auto simp: run_accepted_def name_matches_def split: option.splits)

lemma find_run_none:
  "\<forall>x \<in> set runs. r_name x \<noteq> None \<and> \<not> run_accepted workerId now x \<Longrightarrow>
   find_run workerId now runs = Inr None"
  using find_run_skip [of runs workerId now "[]"] by simp

text \<open>The sample runs against the sample worker id, listed at time 1000000.\<close>

lemma sample_name_matches:
  "name_matches sample_worker (sample_run sample_name ev created st concl)"
  by (simp add: name_matches_def sample_run_def sample_worker_def sample_name_def)

lemma render_name_no_match:
  "\<not> name_matches sample_worker (sample_run ''Render'' ev created st concl)"
  by (simp add: name_matches_def sample_run_def sample_worker_def)

lemma sample_recent:
  "recent_dispatch now (sample_run nm ''workflow_dispatch'' created st concl)
     \<longleftrightarrow> created > now - 300000"
  by (simp add: recent_dispatch_def sample_run_def)

lemma sample_named: "r_name (sample_run nm ev created st concl) = Some nm"
  by (simp add: sample_run_def)

lemma unnamed_runs:
  "r_name unnamed_run = None" "r_name unnamed_stale_run = None"
  "\<not> name_matches workerId unnamed_run" "\<not> name_matches workerId unnamed_stale_run"
  "recent_dispatch 1000000 unnamed_run" "\<not> recent_dispatch 1000000 unnamed_stale_run"
  by (simp_all add: unnamed_run_def unnamed_stale_run_def stale_run_def sample_run_def
        name_matches_def recent_dispatch_def)

text \<open>
  C3 fails as stated. The dispatch is made at time 995000 and the listing is read at time
  1000000. Two dispatch runs, neither holding the worker id, were created 4000 ms and
  1000 ms after the dispatch; both are inside the 10 s tolerance of the dispatch time and
  inside the 300 s window of \<^verbatim>\<open>getRunStatus\<close>. The listing has the newer one first, and
  \<^verbatim>\<open>getRunStatus\<close> returns it, although the other is closer to the dispatch time. And when
  the first of two such candidates has no name, \<^verbatim>\<open>getRunStatus\<close> returns no run at all: it
  throws a \<^verbatim>\<open>TypeError\<close>.
\<close>

theorem getRunStatus_closest_counterexample:
  "\<not> name_matches sample_worker newer_run \<and> \<not> name_matches sample_worker older_run \<and>
   recent_dispatch 1000000 newer_run \<and> recent_dispatch 1000000 older_run \<and>
   r_created_at newer_run > 995000 - 10000 \<and> r_created_at older_run > 995000 - 10000 \<and>
   \<bar>r_created_at older_run - 995000\<bar> < \<bar>r_created_at newer_run - 995000\<bar> \<and>
   getRunStatus sample_worker 1000000 (Inr [newer_run, older_run])
     = Inr (Some (snapshot newer_run)) \<and>
   snapshot newer_run \<noteq> snapshot older_run \<and>
   \<not> name_matches sample_worker unnamed_run \<and> recent_dispatch 1000000 unnamed_run \<and>
   r_created_at unnamed_run > 995000 - 10000 \<and>
   getRunStatus sample_worker 1000000 (Inr [unnamed_run, older_run]) = Inl name_type_error"
  by (simp add: newer_run_def older_run_def render_name_no_match sample_recent getRunStatus_def
        run_accepted_def unnamed_runs sample_named)
     (simp add: sample_run_def snapshot_def unnamed_run_def sample_worker_def)

text \<open>
  C3, amended. When no run in the list holds the worker id in its name, \<open>c\<close> is the first
  run in list order that is a \<^verbatim>\<open>workflow_dispatch\<close> created less than 300000 ms before the
  listing is read, and \<open>c\<close> and every run before it have a name, \<^verbatim>\<open>getRunStatus\<close> returns
  \<open>c\<close>, whatever candidates follow it; creation times are not compared with the dispatch
  time.
\<close>

theorem getRunStatus_first_candidate:
  assumes "\<forall>r \<in> set (pre @ c # post). \<not> name_matches workerId r"
    and "\<forall>r \<in> set pre. r_name r \<noteq> None \<and> \<not> recent_dispatch now r"
    and "r_name c \<noteq> None" and "recent_dispatch now c"
  shows "getRunStatus workerId now (Inr (pre @ c # post)) = Inr (Some (snapshot c))"
proof -
  from assms(1,2)
  have "\<forall>x \<in> set pre. r_name x \<noteq> None \<and> \<not> run_accepted workerId now x"
    by (auto simp: run_accepted_def)
  then have "find_run workerId now (pre @ c # post) = find_run workerId now (c # post)"
    by (rule find_run_skip)
  also have "\<dots> = Inr (Some c)"
    using assms(3,4) by (intro find_run_accept) (simp_all add: run_accepted_def)
  finally show ?thesis by (simp add: getRunStatus_def)
qed

theorem getRunStatus_first_candidate_witness:
  "getRunStatus sample_worker 1000000 (Inr ([stale_run] @ older_run # [newer_run, unnamed_run]))
     = Inr (Some (snapshot older_run))"
proof -
  have no_name: "\<forall>r \<in> set ([stale_run] @ older_run # [newer_run, unnamed_run]).
                   \<not> name_matches sample_worker r"
    by (simp add: stale_run_def older_run_def newer_run_def render_name_no_match unnamed_runs)
  have before: "\<forall>r \<in> set [stale_run]. r_name r \<noteq> None \<and> \<not> recent_dispatch 1000000 r"
    by (simp add: stale_run_def sample_named sample_recent)
  have named: "r_name older_run \<noteq> None"
    by (simp add: older_run_def sample_named)
  have recent: "recent_dispatch 1000000 older_run"
    by (simp add: older_run_def sample_recent)
  show ?thesis
    using no_name before named recent by (rule getRunStatus_first_candidate)
qed

text \<open>
  C8 fails as stated. Exactly one run of the list holds the worker id, but a dispatch run
  created inside the 300 s window stands before it in the list; \<^verbatim>\<open>getRunStatus\<close> returns
  the snapshot of that earlier run. And for a list whose one run neither holds the worker
  id nor passes the timestamp fallback, but has no name, \<^verbatim>\<open>getRunStatus\<close> does not return
  \<^verbatim>\<open>null\<close>: it throws a \<^verbatim>\<open>TypeError\<close>.
\<close>

theorem getRunStatus_token_counterexample:
  "filter (name_matches sample_worker) [newer_run, token_run] = [token_run] \<and>
   getRunStatus sample_worker 1000000 (Inr [newer_run, token_run])
     = Inr (Some (snapshot newer_run)) \<and>
   snapshot newer_run \<noteq> snapshot token_run \<and>
   \<not> name_matches sample_worker unnamed_stale_run \<and>
   \<not> recent_dispatch 1000000 unnamed_stale_run \<and>
   getRunStatus sample_worker 1000000 (Inr [unnamed_stale_run]) = Inl name_type_error"
  by (simp add: newer_run_def token_run_def render_name_no_match sample_name_matches
        sample_recent getRunStatus_def run_accepted_def unnamed_runs sample_named)
     (simp add: sample_run_def snapshot_def sample_worker_def)

text \<open>
  C8, amended. When every run of the list has a name, and no run holds the worker id in
  its name or passes the timestamp fallback, \<^verbatim>\<open>getRunStatus\<close> returns \<^verbatim>\<open>null\<close> and does not
  throw. When exactly one run of the list holds the worker id, and every run standing
  before it in the list has a name and does not pass the timestamp fallback,
  \<^verbatim>\<open>getRunStatus\<close> returns the snapshot of that run. When a run without a name is reached,
  every run before it having a name and not being accepted, \<^verbatim>\<open>getRunStatus\<close> throws a
  \<^verbatim>\<open>TypeError\<close>.
\<close>

theorem getRunStatus_none_or_token:
  "((\<forall>r \<in> set runs. r_name r \<noteq> None \<and> \<not> run_accepted workerId now r) \<longrightarrow>
      getRunStatus workerId now (Inr runs) = Inr None) \<and>
   (filter (name_matches workerId) runs = [r] \<and>
    (\<forall>q \<in> set (takeWhile (\<lambda>x. \<not> name_matches workerId x) runs).
        r_name q \<noteq> None \<and> \<not> recent_dispatch now q) \<longrightarrow>
      getRunStatus workerId now (Inr runs) = Inr (Some (snapshot r))) \<and>
   (\<forall>pre u post.
      runs = pre @ u # post \<and>
      (\<forall>q \<in> set pre. r_name q \<noteq> None \<and> \<not> run_accepted workerId now q) \<and>
      r_name u = None \<longrightarrow>
      getRunStatus workerId now (Inr runs) = Inl name_type_error)"
proof (intro conjI impI allI)
  assume "\<forall>r \<in> set runs. r_name r \<noteq> None \<and> \<not> run_accepted workerId now r"
  then show "getRunStatus workerId now (Inr runs) = Inr None"
    by (simp add: getRunStatus_def find_run_none)
next
  let ?nm = "name_matches workerId"
  let ?pre = "takeWhile (\<lambda>x. \<not> ?nm x) runs"
  let ?post = "dropWhile (\<lambda>x. \<not> ?nm x) runs"
  assume a: "filter ?nm runs = [r] \<and>
             (\<forall>q \<in> set ?pre. r_name q \<noteq> None \<and> \<not> recent_dispatch now q)"
  have pre: "\<forall>x \<in> set ?pre. r_name x \<noteq> None \<and> \<not> run_accepted workerId now x"
    using a by (auto simp: run_accepted_def dest: set_takeWhileD)
  have "filter ?nm ?pre = []"
    by (auto simp: filter_empty_conv dest: set_takeWhileD)
  then have one: "filter ?nm ?post = [r]"
    using a filter_append [of ?nm ?pre ?post] by simp
  then have ne: "?post \<noteq> []" by (cases ?post) simp_all
  then have hd_nm: "?nm (hd ?post)" using hd_dropWhile [of "\<lambda>x. \<not> ?nm x" runs] by simp
  from ne obtain h t where post: "?post = h # t" by (cases ?post) auto
  with hd_nm have "?nm h" by simp
  with post one have "h = r" by simp
  from \<open>?nm h\<close> have named: "r_name h \<noteq> None"
    by (cases "r_name h") (simp_all add: name_matches_def)
  have "find_run workerId now runs = find_run workerId now (?pre @ ?post)"
    by simp
  also have "\<dots> = find_run workerId now ?post"
    using pre by (rule find_run_skip)
  also have "\<dots> = find_run workerId now (h # t)"
    by (simp only: post)
  also have "\<dots> = Inr (Some h)"
    using named \<open>?nm h\<close> by (intro find_run_accept) (simp_all add: run_accepted_def)
  also have "\<dots> = Inr (Some r)"
    by (simp only: \<open>h = r\<close>)
  finally show "getRunStatus workerId now (Inr runs) = Inr (Some (snapshot r))"
    by (simp add: getRunStatus_def)
next
  fix pre u post
  assume a: "runs = pre @ u # post \<and>
             (\<forall>q \<in> set pre. r_name q \<noteq> None \<and> \<not> run_accepted workerId now q) \<and>
             r_name u = None"
  then have "find_run workerId now runs = find_run workerId now (u # post)"
    by (simp add: find_run_skip)
  with a show "getRunStatus workerId now (Inr runs) = Inl name_type_error"
    by (simp add: getRunStatus_def)
qed

theorem getRunStatus_none_or_token_witness:
  "getRunStatus sample_worker 1000000 (Inr [stale_run]) = Inr None \<and>
   filter (name_matches sample_worker) [stale_run, token_run, newer_run] = [token_run] \<and>
   getRunStatus sample_worker 1000000 (Inr [stale_run, token_run, newer_run])
     = Inr (Some (snapshot token_run)) \<and>
   getRunStatus sample_worker 1000000 (Inr ([stale_run] @ unnamed_stale_run # [token_run]))
     = Inl name_type_error"
proof -
  have none: "\<forall>r \<in> set [stale_run]. r_name r \<noteq> None \<and> \<not> run_accepted sample_worker 1000000 r"
    by (simp add: run_accepted_def stale_run_def render_name_no_match sample_recent sample_named)
  have one: "filter (name_matches sample_worker) [stale_run, token_run, newer_run] = [token_run]"
    by (simp add: stale_run_def token_run_def newer_run_def render_name_no_match
          sample_name_matches)
  have before: "\<forall>q \<in> set (takeWhile (\<lambda>x. \<not> name_matches sample_worker x)
                            [stale_run, token_run, newer_run]).
                  r_name q \<noteq> None \<and> \<not> recent_dispatch 1000000 q"
    by (simp add: stale_run_def token_run_def newer_run_def render_name_no_match
          sample_name_matches sample_recent sample_named)
  have unnamed: "[stale_run] @ unnamed_stale_run # [token_run]
                   = [stale_run] @ unnamed_stale_run # [token_run] \<and>
                 (\<forall>q \<in> set [stale_run]. r_name q \<noteq> None \<and> \<not> run_accepted sample_worker 1000000 q) \<and>
                 r_name unnamed_stale_run = None"
    using none by (simp add: unnamed_runs)
  from getRunStatus_none_or_token
         [where runs = "[stale_run]" and workerId = sample_worker and now = 1000000] none
  have 1: "getRunStatus sample_worker 1000000 (Inr [stale_run]) = Inr None"
    by blast
  from getRunStatus_none_or_token
         [where runs = "[stale_run, token_run, newer_run]" and workerId = sample_worker
            and now = 1000000 and r = token_run] one before
  have 2: "getRunStatus sample_worker 1000000 (Inr [stale_run, token_run, newer_run])
             = Inr (Some (snapshot token_run))"
    by blast
  from getRunStatus_none_or_token
         [where runs = "[stale_run] @ unnamed_stale_run # [token_run]"
            and workerId = sample_worker and now = 1000000] unnamed
  have 3: "getRunStatus sample_worker 1000000 (Inr ([stale_run] @ unnamed_stale_run # [token_run]))
             = Inl name_type_error"
    by blast
  from 1 one 2 3 show ?thesis by blast
qed

section \<open>Properties of pollWorkflowStatus\<close>

text \<open>Passes that are within the budget and keep the loop polling are passed over.\<close>

lemma poll_loop_skips:
  assumes "\<forall>p \<in> set pre. within_budget startTime tmo p \<and> keeps_polling workerId p"
  shows "poll_loop gitHub workerId startTime tmo (pre @ rest) =
         poll_loop gitHub workerId startTime tmo rest"
  using assms
proof (induction pre)
  case Nil
  then show ?case by simp
next
  case (Cons p pre)
  then have "within_budget startTime tmo p" and "keeps_polling workerId p" by simp_all
  with Cons show ?case
    by (auto simp: within_budget_def keeps_polling_def split: sum.splits option.splits)
qed

text \<open>
  What the loop returns from inside is a snapshot with status \<^verbatim>\<open>completed\<close> or \<^verbatim>\<open>failed\<close>;
  any other returned object is the one of line 130.
\<close>

lemma poll_loop_result:
  "poll_loop gitHub workerId startTime tmo passes = Some (Inr r) \<Longrightarrow>
   status r = ''completed'' \<or> status r = ''failed'' \<or> r = timeout_result gitHub"
  by (induction passes) (auto split: if_splits sum.splits option.splits)

text \<open>The sample passes.\<close>

lemma run_pass_status:
  "getRunStatus sample_worker (fetch_clock (run_pass t st concl)) (listing (run_pass t st concl))
     = Inr (Some (snapshot (sample_run sample_name ''workflow_dispatch'' 1000 st concl)))"
proof -
  have "find_run sample_worker t [sample_run sample_name ''workflow_dispatch'' 1000 st concl]
          = Inr (Some (sample_run sample_name ''workflow_dispatch'' 1000 st concl))"
    by (intro find_run_accept) (simp_all add: sample_named run_accepted_def sample_name_matches)
  then show ?thesis
    by (simp add: getRunStatus_def run_pass_def)
qed

lemma empty_pass_status:
  "getRunStatus workerId (fetch_clock (empty_pass t)) (listing (empty_pass t)) = Inr None"
  by (simp add: getRunStatus_def empty_pass_def)

lemma failing_pass_status:
  "getRunStatus workerId (fetch_clock (failing_pass t)) (listing (failing_pass t))
     = Inl (JsError ''ECONNRESET'')"
  by (simp add: getRunStatus_def failing_pass_def)

lemma empty_pass_keeps_polling: "keeps_polling workerId (empty_pass t)"
  by (simp add: keeps_polling_def empty_pass_status)

lemma run_pass_keeps_polling:
  "keeps_polling sample_worker (run_pass t st concl) \<longleftrightarrow> st \<noteq> ''completed'' \<and> st \<noteq> ''failed''"
  by (simp add: keeps_polling_def run_pass_status) (simp add: snapshot_def sample_run_def)

lemma sample_pass_clock:
  "clock (empty_pass t) = t" "clock (failing_pass t) = t" "clock (run_pass t st concl) = t"
  by (simp_all add: empty_pass_def failing_pass_def run_pass_def)

lemma sample_snapshot_status:
  "status (snapshot (sample_run nm ev created st concl)) = st"
  "conclusion (snapshot (sample_run nm ev created st concl)) = concl"
  "downloadUrl (snapshot (sample_run nm ev created st concl)) = None"
  by (simp_all add: snapshot_def sample_run_def)

lemma default_timeout: "timeout_of default_options = 600000"
  by (simp add: timeout_of_def default_options_def)

lemma short_timeout: "timeout_of short_options = 10000"
  by (simp add: timeout_of_def short_options_def)





text \<open>
  C5 fails as stated. In both runs the budget is 10000 ms and the run is never seen
  completed. In the first the listing call throws at 5000 ms: \<^verbatim>\<open>pollWorkflowStatus\<close> throws
  that error and returns no result, timed out or other. In the second the remote reports
  the status \<^verbatim>\<open>failed\<close> at 5000 ms: \<^verbatim>\<open>pollWorkflowStatus\<close> returns that snapshot, which is
  not the object it returns on a timeout.
\<close>

theorem poll_timeout_counterexample:
  "\<not> within_budget 0 (timeout_of short_options) (empty_pass 10000) \<and>
   pollWorkflowStatus sample_adapter sample_worker short_options 0 error_before_timeout
     = Some (Inl (JsError ''ECONNRESET'')) \<and>
   pollWorkflowStatus sample_adapter sample_worker short_options 0 failed_before_timeout
     = Some (Inr (snapshot (sample_run sample_name ''workflow_dispatch'' 1000 ''failed'' None))) \<and>
   snapshot (sample_run sample_name ''workflow_dispatch'' 1000 ''failed'' None)
     \<noteq> timeout_result sample_adapter"
proof -
  have 1: "pollWorkflowStatus sample_adapter sample_worker short_options 0 error_before_timeout
             = Some (Inl (JsError ''ECONNRESET''))"
    by (simp add: pollWorkflowStatus_def short_timeout error_before_timeout_def
          sample_pass_clock run_pass_status failing_pass_status sample_snapshot_status)
  have 2: "pollWorkflowStatus sample_adapter sample_worker short_options 0 failed_before_timeout
     = Some (Inr (snapshot (sample_run sample_name ''workflow_dispatch'' 1000 ''failed'' None)))"
    by (simp add: pollWorkflowStatus_def short_timeout failed_before_timeout_def
          sample_pass_clock run_pass_status sample_snapshot_status)
  have 3: "snapshot (sample_run sample_name ''workflow_dispatch'' 1000 ''failed'' None)
             \<noteq> timeout_result sample_adapter"
    by (simp add: snapshot_def timeout_result_def)
  from 1 2 3 show ?thesis
    by (simp add: within_budget_def short_timeout sample_pass_clock)
qed

text \<open>
  C5, amended. When every pass is within the budget, its fetch returns without throwing,
  and it shows no run or a run that is neither \<^verbatim>\<open>completed\<close> nor \<^verbatim>\<open>failed\<close>, until a pass at
  which the elapsed time has reached the timeout, \<^verbatim>\<open>pollWorkflowStatus\<close> returns the object
  of line 130: status \<^verbatim>\<open>in_progress\<close> with the \<^verbatim>\<open>checkUrl\<close> of the workflow. That object is
  the mark of a timeout: its status is neither \<^verbatim>\<open>failed\<close> nor \<^verbatim>\<open>completed\<close>, and by
  \<open>poll_loop_result\<close> the loop returns no other object with such a status.
\<close>

theorem poll_timeout_tagged:
  assumes "\<forall>q \<in> set pre. within_budget startTime (timeout_of options) q \<and>
                          keeps_polling workerId q"
    and "\<not> within_budget startTime (timeout_of options) p"
  shows "pollWorkflowStatus gitHub workerId options startTime (pre @ p # rest)
           = Some (Inr (timeout_result gitHub)) \<and>
         status (timeout_result gitHub) = ''in_progress'' \<and>
         checkUrl (timeout_result gitHub) = Some (getWorkflowUrl gitHub) \<and>
         status (timeout_result gitHub) \<noteq> ''failed'' \<and>
         status (timeout_result gitHub) \<noteq> ''completed''"
proof -
  from assms(2)
  have "poll_loop gitHub workerId startTime (timeout_of options) (p # rest)
          = Some (Inr (timeout_result gitHub))"
    by (simp add: within_budget_def)
  with poll_loop_skips [OF assms(1)] show ?thesis
    by (simp add: pollWorkflowStatus_def timeout_result_def)
qed

theorem poll_timeout_tagged_witness:
  "pollWorkflowStatus sample_adapter sample_worker short_options 0
     ([empty_pass 0, run_pass 5000 ''in_progress'' None] @ empty_pass 10000 # [])
     = Some (Inr (timeout_result sample_adapter)) \<and>
   checkUrl (timeout_result sample_adapter) = Some ''https://github.com/o/r/actions''"
proof -
  have before: "\<forall>q \<in> set [empty_pass 0, run_pass 5000 ''in_progress'' None].
                  within_budget 0 (timeout_of short_options) q \<and> keeps_polling sample_worker q"
    by (simp add: within_budget_def short_timeout sample_pass_clock empty_pass_keeps_polling
          run_pass_keeps_polling)
  have over: "\<not> within_budget 0 (timeout_of short_options) (empty_pass 10000)"
    by (simp add: within_budget_def short_timeout sample_pass_clock)
  have "getWorkflowUrl sample_adapter = ''https://github.com/o/r/actions''"
    by (simp add: getWorkflowUrl_def sample_adapter_def)
  with poll_timeout_tagged [OF before over, of sample_adapter "[]"] show ?thesis
    by simp
qed

section \<open>Properties of ClipperService.process\<close>

text \<open>
  Whenever the poller reports a run with status \<^verbatim>\<open>completed\<close> and Telegram is configured,
  \<^verbatim>\<open>process\<close> calls \<^verbatim>\<open>sendVideo\<close>, whatever the conclusion of the run.
\<close>

lemma process_completed_calls_sendVideo:
  assumes "triggerWorkflow env = None"
    and "pollWorkflowStatus gitHub workerId default_options (poll_start env) (poll_passes env)
           = Some (Inr result)"
    and "status result = ''completed''" and "telegram_configured tg"
  shows "\<exists>thrown effects.
           process tg gitHub env youtubeUrl True workerId = Some (thrown, effects) \<and>
           SendVideo (downloadUrl result) workerId \<in> set effects"
proof -
  have "try_block tg gitHub env youtubeUrl True workerId
          = Some (sendVideo env (downloadUrl result),
                  [TriggerWorkflow youtubeUrl workerId, SendVideo (downloadUrl result) workerId])"
    using assms by (simp add: try_block_def)
  then show ?thesis
    by (cases "sendVideo env (downloadUrl result)"; cases "sendError env workerId")
       (simp_all add: process_def assms(4))
qed

text \<open>
  C2 fails on the code. \<^verbatim>\<open>process\<close> tests \<^verbatim>\<open>result.status === 'completed'\<close> and never reads
  \<^verbatim>\<open>result.conclusion\<close>; its failure branch is for a status \<^verbatim>\<open>failed\<close>. For a run that the
  poller reports as completed with conclusion \<^verbatim>\<open>failure\<close>, \<^verbatim>\<open>process\<close> takes the success
  path and calls \<^verbatim>\<open>sendVideo\<close> with the \<^verbatim>\<open>downloadUrl\<close> of the snapshot, which is undefined.
  The adapter's \<^verbatim>\<open>sendVideo\<close> throws a \<^verbatim>\<open>TypeError\<close> on it, the \<^verbatim>\<open>catch\<close> clause sends that
  error's message as the notification, and \<^verbatim>\<open>process\<close> throws the \<^verbatim>\<open>TypeError\<close>: the remote
  failure is neither what is notified nor what is thrown.
\<close>

theorem process_calls_sendVideo_on_failure_conclusion:
  "pollWorkflowStatus sample_adapter sample_worker default_options
      (poll_start failed_run_env) (poll_passes failed_run_env)
     = Some (Inr (snapshot (sample_run sample_name ''workflow_dispatch'' 1000
                             ''completed'' (Some ''failure'')))) \<and>
   conclusion (snapshot (sample_run sample_name ''workflow_dispatch'' 1000
                             ''completed'' (Some ''failure''))) = Some ''failure'' \<and>
   process sample_telegram sample_adapter failed_run_env sample_url True sample_worker
     = Some (Some destructure_type_error,
             [TriggerWorkflow sample_url sample_worker,
              SendVideo None sample_worker,
              SendError sample_worker (errorMessage destructure_type_error)])"
proof -
  have poll: "pollWorkflowStatus sample_adapter sample_worker default_options
      (poll_start failed_run_env) (poll_passes failed_run_env)
     = Some (Inr (snapshot (sample_run sample_name ''workflow_dispatch'' 1000
                             ''completed'' (Some ''failure''))))"
    by (simp add: pollWorkflowStatus_def default_timeout failed_run_env_def
          empty_pass_status run_pass_status sample_pass_clock sample_snapshot_status)
  have configured: "telegram_configured sample_telegram"
    by (simp add: telegram_configured_def sample_telegram_def)
  have "try_block sample_telegram sample_adapter failed_run_env sample_url True sample_worker
          = Some (Some destructure_type_error,
                  [TriggerWorkflow sample_url sample_worker, SendVideo None sample_worker])"
    using poll
    by (simp add: try_block_def configured sample_snapshot_status sendVideo_def
          failed_run_env_def)
  then have "process sample_telegram sample_adapter failed_run_env sample_url True sample_worker
     = Some (Some destructure_type_error,
             [TriggerWorkflow sample_url sample_worker,
              SendVideo None sample_worker,
              SendError sample_worker (errorMessage destructure_type_error)])"
    by (simp add: process_def configured sendError_def failed_run_env_def)
  with poll show ?thesis
    by (simp add: sample_snapshot_status)
qed

text \<open>
  C9 fails on the code. The \<^verbatim>\<open>catch\<close> clause awaits \<^verbatim>\<open>sendError\<close> (line 68) with no
  \<^verbatim>\<open>try\<close> of its own, before its \<^verbatim>\<open>throw error\<close> (line 71). With the dispatch rejected
  (\<^verbatim>\<open>HTTP 422\<close>) and the notification failing (\<^verbatim>\<open>ETELEGRAM\<close>), what \<^verbatim>\<open>process\<close> throws is the
  error of the notification, not the error of the dispatch. When the notification goes
  through, \<^verbatim>\<open>process\<close> throws the error of the dispatch.
\<close>

theorem process_notification_failure_overrides:
  "process sample_telegram sample_adapter (rejected_env (Some (JsError ''ETELEGRAM'')))
       sample_url True sample_worker
     = Some (Some (JsError ''ETELEGRAM''),
             [TriggerWorkflow sample_url sample_worker, SendError sample_worker ''HTTP 422'']) \<and>
   process sample_telegram sample_adapter (rejected_env None) sample_url True sample_worker
     = Some (Some (JsError ''HTTP 422''),
             [TriggerWorkflow sample_url sample_worker, SendError sample_worker ''HTTP 422''])"
  by (simp add: process_def try_block_def rejected_env_def telegram_configured_def
        sample_telegram_def sendError_def)

end
